theory Spec2Isabelle
  imports Complex_Main
begin

section \<open>Time values and calendar arithmetic\<close>

text \<open>
  A JavaScript \<^verbatim>\<open>Date\<close> holds a time value: the milliseconds since the epoch, or NaN
  (an Invalid Date). A time value is an \<open>int\<close>; a \<^verbatim>\<open>Date\<close> object is an
  \<open>int option\<close>, \<open>None\<close> being the Invalid Date. The conversions between dates and
  strings belong to the runtime and to date-fns; the functions below take them as
  parameters: \<open>newDate\<close> is \<^verbatim>\<open>new Date(string)\<close>, \<open>toISOString\<close> is
  \<^verbatim>\<open>Date.prototype.toISOString\<close> and \<open>format\<close> is the \<^verbatim>\<open>format\<close> of date-fns.
  Calendar arithmetic is written out for a local zone at a fixed offset \<open>tz\<close>
  (milliseconds east of UTC); a zone that changes its offset is outside the model.
\<close>

definition msPerDay :: int where
  "msPerDay = 1000 * 60 * 60 * 24"

text \<open>\<^verbatim>\<open>d.setHours(0, 0, 0, 0)\<close>: the local midnight that starts the local day of \<open>t\<close>.\<close>

definition setHours0 :: "int \<Rightarrow> int \<Rightarrow> int" where
  "setHours0 tz t = ((t + tz) div msPerDay) * msPerDay - tz"

text \<open>\<^verbatim>\<open>d.getDay()\<close>: the local day of the week, 0 for Sunday. 1 January 1970 was a Thursday.\<close>

definition getDay :: "int \<Rightarrow> int \<Rightarrow> int" where
  "getDay tz t = ((t + tz) div msPerDay + 4) mod 7"

text \<open>
  \<^verbatim>\<open>startOfWeek(d)\<close> and \<^verbatim>\<open>endOfWeek(d)\<close> of date-fns with its default options
  (\<^verbatim>\<open>weekStartsOn: 0\<close>): the first and the last millisecond of the local week of \<open>t\<close>.
\<close>

definition startOfWeek :: "int \<Rightarrow> int \<Rightarrow> int" where
  "startOfWeek tz t = setHours0 tz t - getDay tz t * msPerDay"

definition endOfWeek :: "int \<Rightarrow> int \<Rightarrow> int" where
  "endOfWeek tz t = startOfWeek tz t + 7 * msPerDay - 1"

text \<open>\<^verbatim>\<open>subDays(d, n)\<close> of date-fns: the same local time \<open>n\<close> days earlier.\<close>

definition subDays :: "int \<Rightarrow> nat \<Rightarrow> int" where
  "subDays t n = t - int n * msPerDay"

text \<open>
  The comparisons \<^verbatim>\<open>a >= b\<close> and \<^verbatim>\<open>a <= b\<close> of a \<^verbatim>\<open>Date\<close> that may be
  invalid with a valid one: every comparison with NaN is false.
\<close>

definition date_ge :: "int option \<Rightarrow> int \<Rightarrow> bool" where
  "date_ge d b = (case d of None \<Rightarrow> False | Some a \<Rightarrow> b \<le> a)"

definition date_le :: "int option \<Rightarrow> int \<Rightarrow> bool" where
  "date_le d b = (case d of None \<Rightarrow> False | Some a \<Rightarrow> a \<le> b)"

section \<open>The calendar, and reference conversions between dates and strings\<close>

text \<open>
  The Gregorian calendar: \<open>civil\<close> takes a number of days since the epoch to the
  year, the month and the day of the month. On it rest \<^verbatim>\<open>getMonth\<close> and
  \<^verbatim>\<open>getFullYear\<close>, and reference versions of the conversions that the functions
  below take as parameters, so that the theorems can be applied to concrete inputs.
\<close>

definition civil :: "int \<Rightarrow> int \<times> int \<times> int" where
  "civil days =
     (let z = days + 719468;
          era = z div 146097;
          doe = z mod 146097;
          yoe = (doe - doe div 1460 + doe div 36524 - doe div 146096) div 365;
          doy = doe - (365 * yoe + yoe div 4 - yoe div 100);
          mp = (5 * doy + 2) div 153;
          d = doy - (153 * mp + 2) div 5 + 1;
          m = (if mp < 10 then mp + 3 else mp - 9);
          y = yoe + era * 400 + (if m \<le> 2 then 1 else 0)
      in (y, m, d))"

text \<open>\<^verbatim>\<open>d.getMonth()\<close>, 0 for January, and \<^verbatim>\<open>d.getFullYear()\<close>, in the local zone.\<close>

definition getMonth :: "int \<Rightarrow> int \<Rightarrow> int" where
  "getMonth tz t = (case civil ((t + tz) div msPerDay) of (y, m, d) \<Rightarrow> m - 1)"

definition getFullYear :: "int \<Rightarrow> int \<Rightarrow> int" where
  "getFullYear tz t = (case civil ((t + tz) div msPerDay) of (y, m, d) \<Rightarrow> y)"

definition digit :: "int \<Rightarrow> char" where
  "digit n = ''0123456789'' ! nat (n mod 10)"

definition pad2 :: "int \<Rightarrow> string" where
  "pad2 n = [digit (n div 10), digit n]"

definition pad3 :: "int \<Rightarrow> string" where
  "pad3 n = [digit (n div 100), digit (n div 10), digit n]"

definition pad4 :: "int \<Rightarrow> string" where
  "pad4 n = [digit (n div 1000), digit (n div 100), digit (n div 10), digit n]"

text \<open>\<^verbatim>\<open>toISOString\<close>, for the years 0 to 9999.\<close>

definition utc_toISOString :: "int \<Rightarrow> string" where
  "utc_toISOString t =
     (case civil (t div msPerDay) of
        (y, m, d) \<Rightarrow>
          pad4 y @ ''-'' @ pad2 m @ ''-'' @ pad2 d @ ''T''
          @ pad2 (t mod msPerDay div 3600000) @ '':''
          @ pad2 (t mod 3600000 div 60000) @ '':''
          @ pad2 (t mod 60000 div 1000) @ ''.'' @ pad3 (t mod 1000) @ ''Z'')"

definition monthNames :: "string list" where
  "monthNames = [''Jan'', ''Feb'', ''Mar'', ''Apr'', ''May'', ''Jun'',
                 ''Jul'', ''Aug'', ''Sep'', ''Oct'', ''Nov'', ''Dec'']"

text \<open>
  \<^verbatim>\<open>format\<close> of date-fns in the zone at offset \<open>tz\<close>, for the two patterns the
  analytics page uses.
\<close>

definition zone_format :: "int \<Rightarrow> int \<Rightarrow> string \<Rightarrow> string" where
  "zone_format tz t pattern =
     (case civil ((t + tz) div msPerDay) of
        (y, m, d) \<Rightarrow>
          if pattern = ''yyyy-MM-dd'' then pad4 y @ ''-'' @ pad2 m @ ''-'' @ pad2 d
          else if pattern = ''MMM d''
          then monthNames ! nat (m - 1) @ '' '' @ (if d < 10 then [digit d] else pad2 d)
          else pattern)"

section \<open>The data model\<close>

text \<open>
  The records of \<^verbatim>\<open>../types\<close>, with the fields the pages read and write. A field
  \<^verbatim>\<open>id\<close> or \<^verbatim>\<open>description\<close> carries the record's name as a prefix, since a
  field name is global to the theory. The session record without identifier is the
  interface that \<^verbatim>\<open>Analytics\<close> and \<^verbatim>\<open>SubjectStats\<close> declare locally; the
  session of \<^verbatim>\<open>../types\<close> extends it by the identifier.
\<close>

record StudySession =
  date :: string
  durationMinutes :: int
  subject :: string

record StoredSession = StudySession +
  session_id :: string

record StudyStreak =
  currentStreak :: int
  bestStreak :: int
  lastStudyDate :: string

record Subject =
  subject_id :: string
  name :: string
  subject_description :: string
  color :: string
  goalHoursPerWeek :: real

record Task =
  task_id :: string
  title :: string
  task_description :: string
  dueDate :: string
  completed :: bool

section \<open>Dashboard: completing a study session\<close>

text \<open>
  The state of the \<^verbatim>\<open>Dashboard\<close> component that \<^verbatim>\<open>handleStudySessionComplete\<close>
  and the two persisting effects read and write.
\<close>

record Dashboard =
  isLoading :: bool
  studyTime :: "StoredSession list"
  streak :: StudyStreak
  isStudyActive :: bool
  selectedSubject :: string

text \<open>
  \<^verbatim>\<open>timeDiff <= 1\<close>, where \<open>timeDiff\<close> is NaN (\<open>None\<close>) when the stored last study
  date does not parse.
\<close>

definition timeDiff_le :: "int option \<Rightarrow> int \<Rightarrow> bool" where
  "timeDiff_le d b = (case d of None \<Rightarrow> False | Some a \<Rightarrow> a \<le> b)"

text \<open>
  \<^verbatim>\<open>handleStudySessionComplete(minutes)\<close>. \<open>now\<close> is what \<^verbatim>\<open>new Date()\<close> reads
  and \<open>uuid\<close> what \<^verbatim>\<open>crypto.randomUUID()\<close> returns. The early return leaves the
  state as it is; otherwise the \<^verbatim>\<open>finally\<close> block clears the active flag and the
  selected subject. Nothing in the \<^verbatim>\<open>try\<close> block throws for a runtime that provides
  \<^verbatim>\<open>crypto.randomUUID\<close>, so the \<^verbatim>\<open>catch\<close> has no branch here. The setter of
  the first branch reads the previous streak, which is the streak of the state when the
  handler runs once per event. Durations are whole minutes.
\<close>

definition handleStudySessionComplete ::
  "(string \<Rightarrow> int option) \<Rightarrow> (int \<Rightarrow> string) \<Rightarrow> int \<Rightarrow> int \<Rightarrow> string \<Rightarrow> int
     \<Rightarrow> Dashboard \<Rightarrow> Dashboard" where
  "handleStudySessionComplete newDate toISOString tz now uuid minutes st =
     (if minutes \<le> 0 then st
      else
        let newSession =
              \<lparr>date = toISOString now,
               durationMinutes = minutes,
               subject = (if selectedSubject st = [] then ''General'' else selectedSubject st),
               session_id = uuid\<rparr>;
            today = setHours0 tz now;
            lastStudy = map_option (setHours0 tz) (newDate (lastStudyDate (streak st)));
            timeDiff = map_option (\<lambda>l. (today - l) div msPerDay) lastStudy;
            streak' =
              (if timeDiff_le timeDiff 1
               then \<lparr>currentStreak = currentStreak (streak st) + 1,
                     bestStreak = max (bestStreak (streak st)) (currentStreak (streak st) + 1),
                     lastStudyDate = toISOString today\<rparr>
               else \<lparr>currentStreak = 1,
                     bestStreak = bestStreak (streak st),
                     lastStudyDate = toISOString today\<rparr>)
        in st\<lparr>studyTime := studyTime st @ [newSession],
              streak := streak',
              isStudyActive := False,
              selectedSubject := []\<rparr>)"

text \<open>
  The streak update rule in the words of the specification: from the day difference
  (NaN when the last study date is invalid) to the next streak record.
\<close>

definition streak_rule :: "int option \<Rightarrow> string \<Rightarrow> StudyStreak \<Rightarrow> StudyStreak" where
  "streak_rule dayDiff today s =
     (case dayDiff of
        Some d \<Rightarrow>
          if d \<le> 1
          then \<lparr>currentStreak = currentStreak s + 1,
                bestStreak = max (bestStreak s) (currentStreak s + 1),
                lastStudyDate = today\<rparr>
          else \<lparr>currentStreak = 1, bestStreak = bestStreak s, lastStudyDate = today\<rparr>
      | None \<Rightarrow> \<lparr>currentStreak = 1, bestStreak = bestStreak s, lastStudyDate = today\<rparr>)"

definition dayDiff :: "(string \<Rightarrow> int option) \<Rightarrow> int \<Rightarrow> int \<Rightarrow> string \<Rightarrow> int option" where
  "dayDiff newDate tz now lastStudy =
     (case newDate lastStudy of
        None \<Rightarrow> None
      | Some l \<Rightarrow> Some ((setHours0 tz now - setHours0 tz l) div msPerDay))"

text \<open>
  Modelled from the spec: \<^verbatim>\<open>setToStorage\<close> of \<^verbatim>\<open>../utils/storage\<close>, which is not
  among the sources. Each named key holds exactly one serialized value and a write
  replaces it. Local storage is a map from keys to strings; \<open>JSON_stringify\<close> is the
  runtime's \<^verbatim>\<open>JSON.stringify\<close> at the type of the value. A write that fails is
  outside the model.
\<close>

definition setToStorage ::
  "('a \<Rightarrow> string) \<Rightarrow> string \<Rightarrow> 'a \<Rightarrow> (string \<rightharpoonup> string) \<Rightarrow> (string \<rightharpoonup> string)" where
  "setToStorage JSON_stringify key v localStorage = localStorage(key \<mapsto> JSON_stringify v)"

text \<open>
  The two persisting effects of \<^verbatim>\<open>Dashboard\<close>, run after a handler took the state
  from \<open>old\<close> to \<open>new\<close>: an effect runs when one of its dependencies changed, and
  writes unless the page is still loading.
\<close>

definition Dashboard_effects ::
  "(StoredSession list \<Rightarrow> string) \<Rightarrow> (StudyStreak \<Rightarrow> string) \<Rightarrow> Dashboard \<Rightarrow> Dashboard
     \<Rightarrow> (string \<rightharpoonup> string) \<Rightarrow> (string \<rightharpoonup> string)" where
  "Dashboard_effects stringifySessions stringifyStreak old new localStorage =
     (let store1 =
            (if (studyTime new \<noteq> studyTime old \<or> isLoading new \<noteq> isLoading old)
                \<and> \<not> isLoading new
             then setToStorage stringifySessions ''studyTime'' (studyTime new) localStorage
             else localStorage)
      in if (streak new \<noteq> streak old \<or> isLoading new \<noteq> isLoading old) \<and> \<not> isLoading new
         then setToStorage stringifyStreak ''streak'' (streak new) store1
         else store1)"

section \<open>Reading persisted collections\<close>

text \<open>
  \<^verbatim>\<open>JSON.parse\<close> is a parameter: \<open>JSON_parse s\<close> is \<open>None\<close> where the runtime throws a
  \<^verbatim>\<open>SyntaxError\<close>, and the parsed value otherwise. A read returns \<open>Inl\<close> of the error
  it throws to its caller, or \<open>Inr\<close> of its value. A stored string that parses to a
  value of another shape than the caller expects is outside the typed model.
\<close>

datatype js_error = SyntaxError

definition parse_or_throw :: "(string \<Rightarrow> 'a option) \<Rightarrow> string \<Rightarrow> js_error + 'a" where
  "parse_or_throw JSON_parse s =
     (case JSON_parse s of None \<Rightarrow> Inl SyntaxError | Some v \<Rightarrow> Inr v)"

text \<open>
  \<^verbatim>\<open>storage.get(key, defaultValue)\<close> of the profile page: the body of the
  \<^verbatim>\<open>try\<close>, and the \<^verbatim>\<open>catch\<close> that returns the default. An absent key reads as
  \<^verbatim>\<open>null\<close>, and \<^verbatim>\<open>null\<close> and the empty string are both falsy.
\<close>

definition storage_get ::
  "(string \<Rightarrow> 'a option) \<Rightarrow> (string \<rightharpoonup> string) \<Rightarrow> string \<Rightarrow> 'a \<Rightarrow> js_error + 'a" where
  "storage_get JSON_parse localStorage key defaultValue =
     (case (case localStorage key of
              None \<Rightarrow> Inr defaultValue
            | Some item \<Rightarrow>
                if item \<noteq> [] then parse_or_throw JSON_parse item else Inr defaultValue) of
        Inl error \<Rightarrow> Inr defaultValue
      | Inr v \<Rightarrow> Inr v)"

text \<open>
  The initial reads of the task page and of the subject page:
  \<^verbatim>\<open>saved ? JSON.parse(saved) : []\<close>, with no \<^verbatim>\<open>try\<close> around it.
\<close>

definition Tasks_tasks_init ::
  "(string \<Rightarrow> 'a list option) \<Rightarrow> (string \<rightharpoonup> string) \<Rightarrow> js_error + 'a list" where
  "Tasks_tasks_init JSON_parse localStorage =
     (case localStorage ''tasks'' of
        None \<Rightarrow> Inr []
      | Some saved \<Rightarrow> if saved \<noteq> [] then parse_or_throw JSON_parse saved else Inr [])"

definition Subjects_subjects_init ::
  "(string \<Rightarrow> 'a list option) \<Rightarrow> (string \<rightharpoonup> string) \<Rightarrow> js_error + 'a list" where
  "Subjects_subjects_init JSON_parse localStorage =
     (case localStorage ''subjects'' of
        None \<Rightarrow> Inr []
      | Some saved \<Rightarrow> if saved \<noteq> [] then parse_or_throw JSON_parse saved else Inr [])"

definition Subjects_studySessions_init ::
  "(string \<Rightarrow> 'a list option) \<Rightarrow> (string \<rightharpoonup> string) \<Rightarrow> js_error + 'a list" where
  "Subjects_studySessions_init JSON_parse localStorage =
     (case localStorage ''studyTime'' of
        None \<Rightarrow> Inr []
      | Some saved \<Rightarrow> if saved \<noteq> [] then parse_or_throw JSON_parse saved else Inr [])"

section \<open>Subjects: weekly progress and deletion\<close>

text \<open>
  \<^verbatim>\<open>getWeeklyProgress(subjectName)\<close>: \<^verbatim>\<open>filter\<close>, then \<^verbatim>\<open>reduce\<close> from 0, then
  the division by 60.
\<close>

definition getWeeklyProgress ::
  "(string \<Rightarrow> int option) \<Rightarrow> int \<Rightarrow> int \<Rightarrow> 'a StudySession_scheme list \<Rightarrow> string \<Rightarrow> real" where
  "getWeeklyProgress newDate tz now studySessions subjectName =
     (let weekStart = startOfWeek tz now;
          weekEnd = endOfWeek tz now;
          weeklyMinutes =
            foldl (\<lambda>acc session. acc + durationMinutes session) 0
              (filter
                 (\<lambda>session.
                    let sessionDate = newDate (date session)
                    in subject session = subjectName
                       \<and> date_ge sessionDate weekStart
                       \<and> date_le sessionDate weekEnd)
                 studySessions)
      in real_of_int weeklyMinutes / 60)"

text \<open>
  The weekly progress in the words of the specification: whether a session counts, and
  the sum of the minutes of the sessions that count.
\<close>

definition in_week :: "int \<Rightarrow> int \<Rightarrow> int option \<Rightarrow> bool" where
  "in_week tz now d =
     (case d of None \<Rightarrow> False | Some t \<Rightarrow> startOfWeek tz now \<le> t \<and> t \<le> endOfWeek tz now)"

definition weekly_minutes ::
  "(string \<Rightarrow> int option) \<Rightarrow> int \<Rightarrow> int \<Rightarrow> 'a StudySession_scheme list \<Rightarrow> string \<Rightarrow> int" where
  "weekly_minutes newDate tz now sessions n =
     (\<Sum>s\<leftarrow>sessions.
        if subject s = n \<and> in_week tz now (newDate (date s)) then durationMinutes s else 0)"

text \<open>The state of the \<^verbatim>\<open>Subjects\<close> page: the subjects, and the sessions it only reads.\<close>

record SubjectsPage =
  subjects :: "Subject list"
  studySessions :: "StoredSession list"

definition handleDeleteSubject :: "string \<Rightarrow> 'a SubjectsPage_scheme \<Rightarrow> 'a SubjectsPage_scheme" where
  "handleDeleteSubject i st =
     st\<lparr>subjects := filter (\<lambda>subject. subject_id subject \<noteq> i) (subjects st)\<rparr>"

text \<open>
  The persisting effect of the page, which runs when the subjects changed:
  \<^verbatim>\<open>localStorage.setItem('subjects', JSON.stringify(subjects))\<close>.
\<close>

definition Subjects_effect ::
  "(Subject list \<Rightarrow> string) \<Rightarrow> 'a SubjectsPage_scheme \<Rightarrow> (string \<rightharpoonup> string)
     \<Rightarrow> (string \<rightharpoonup> string)" where
  "Subjects_effect JSON_stringify st localStorage =
     localStorage(''subjects'' \<mapsto> JSON_stringify (subjects st))"

section \<open>Goal progress\<close>

text \<open>
  A JavaScript number as far as the division needs it: a finite value, the two
  infinities, or NaN. Finite values are exact reals, so rounding is outside the model,
  and \<open>Num 0\<close> stands for the positive zero.
\<close>

datatype jsnum = Num real | PosInfinity | NegInfinity | NaN

fun js_div :: "jsnum \<Rightarrow> jsnum \<Rightarrow> jsnum" where
  "js_div NaN y = NaN"
| "js_div x NaN = NaN"
| "js_div (Num a) (Num b) =
     (if b = 0 then (if a = 0 then NaN else if 0 < a then PosInfinity else NegInfinity)
      else Num (a / b))"
| "js_div (Num a) y = Num 0"
| "js_div PosInfinity (Num b) = (if 0 \<le> b then PosInfinity else NegInfinity)"
| "js_div NegInfinity (Num b) = (if 0 \<le> b then NegInfinity else PosInfinity)"
| "js_div x y = NaN"

fun js_mul :: "jsnum \<Rightarrow> jsnum \<Rightarrow> jsnum" where
  "js_mul NaN y = NaN"
| "js_mul x NaN = NaN"
| "js_mul (Num a) (Num b) = Num (a * b)"
| "js_mul (Num a) PosInfinity =
     (if a = 0 then NaN else if 0 < a then PosInfinity else NegInfinity)"
| "js_mul (Num a) NegInfinity =
     (if a = 0 then NaN else if 0 < a then NegInfinity else PosInfinity)"
| "js_mul PosInfinity (Num b) =
     (if b = 0 then NaN else if 0 < b then PosInfinity else NegInfinity)"
| "js_mul NegInfinity (Num b) =
     (if b = 0 then NaN else if 0 < b then NegInfinity else PosInfinity)"
| "js_mul PosInfinity PosInfinity = PosInfinity"
| "js_mul NegInfinity NegInfinity = PosInfinity"
| "js_mul x y = NegInfinity"

text \<open>
  \<^verbatim>\<open>(totalHours / subject.goalHoursPerWeek) * 100\<close>, as \<^verbatim>\<open>SubjectStats\<close> computes
  \<^verbatim>\<open>goalProgress\<close> and the subject cards compute \<^verbatim>\<open>progress\<close>.
\<close>

definition goalProgress :: "real \<Rightarrow> real \<Rightarrow> jsnum" where
  "goalProgress totalHours goalHours = js_mul (js_div (Num totalHours) (Num goalHours)) (Num 100)"

definition progress ::
  "(string \<Rightarrow> int option) \<Rightarrow> int \<Rightarrow> int \<Rightarrow> 'a StudySession_scheme list \<Rightarrow> 'b Subject_scheme
     \<Rightarrow> jsnum" where
  "progress newDate tz now sessions subj =
     (let weeklyHours = getWeeklyProgress newDate tz now sessions (name subj)
      in goalProgress weeklyHours (goalHoursPerWeek subj))"

section \<open>SubjectStats: the filtered total, the goal progress and the trend\<close>

text \<open>
  The subject and the sessions that \<^verbatim>\<open>SubjectStats\<close> holds as constants. The functions
  of this section take the sessions and the subject as arguments.
\<close>

definition stats_subject :: Subject where
  "stats_subject =
     \<lparr>subject_id = [], name = ''Math'', subject_description = [], color = ''#4F46E5'',
      goalHoursPerWeek = 10\<rparr>"

definition stats_sessions :: "StudySession list" where
  "stats_sessions =
     [\<lparr>date = ''2025-04-12'', durationMinutes = 120, subject = ''Math''\<rparr>,
      \<lparr>date = ''2025-04-13'', durationMinutes = 60, subject = ''Math''\<rparr>,
      \<lparr>date = ''2025-04-06'', durationMinutes = 45, subject = ''Math''\<rparr>]"

datatype timeframe = Week | Month | All

definition getFilteredSessions ::
  "(string \<Rightarrow> int option) \<Rightarrow> int \<Rightarrow> int \<Rightarrow> timeframe \<Rightarrow> 'a StudySession_scheme list
     \<Rightarrow> string \<Rightarrow> 'a StudySession_scheme list" where
  "getFilteredSessions newDate tz now tf sessions subjectName =
     (let subjectSessions = filter (\<lambda>s. subject s = subjectName) sessions
      in case tf of
           Week \<Rightarrow>
             filter
               (\<lambda>s. let d = newDate (date s)
                    in date_ge d (startOfWeek tz now) \<and> date_le d (endOfWeek tz now))
               subjectSessions
         | Month \<Rightarrow>
             filter
               (\<lambda>s. case newDate (date s) of
                      None \<Rightarrow> False
                    | Some d \<Rightarrow>
                        getMonth tz d = getMonth tz now \<and> getFullYear tz d = getFullYear tz now)
               subjectSessions
         | All \<Rightarrow> subjectSessions)"

definition totalHours ::
  "(string \<Rightarrow> int option) \<Rightarrow> int \<Rightarrow> int \<Rightarrow> timeframe \<Rightarrow> 'a StudySession_scheme list
     \<Rightarrow> string \<Rightarrow> real" where
  "totalHours newDate tz now tf sessions subjectName =
     (let filteredSessions = getFilteredSessions newDate tz now tf sessions subjectName;
          totalMinutes = foldl (\<lambda>acc s. acc + durationMinutes s) 0 filteredSessions
      in real_of_int totalMinutes / 60)"

text \<open>
  The comparator of \<^verbatim>\<open>SubjectStats\<close>,
  \<^verbatim>\<open>new Date(b.date).getTime() - new Date(a.date).getTime()\<close>, which is NaN (\<open>None\<close>)
  when one of the two dates is invalid.
\<close>

definition byDateDesc ::
  "(string \<Rightarrow> int option) \<Rightarrow> 'a StudySession_scheme \<Rightarrow> 'a StudySession_scheme \<Rightarrow> int option" where
  "byDateDesc newDate a b =
     (case (newDate (date b), newDate (date a)) of
        (Some tb, Some ta) \<Rightarrow> Some (tb - ta)
      | _ \<Rightarrow> None)"

text \<open>
  \<^verbatim>\<open>Array.prototype.sort\<close> with a comparator: a stable sort, in which a NaN of the
  comparator counts as 0. It is written as an insertion sort; where the comparator is
  not a consistent order, the language leaves the result to the implementation.
\<close>

fun js_insert :: "('a \<Rightarrow> 'a \<Rightarrow> int option) \<Rightarrow> 'a \<Rightarrow> 'a list \<Rightarrow> 'a list" where
  "js_insert cmp x [] = [x]"
| "js_insert cmp x (y # ys) =
     (if (case cmp x y of None \<Rightarrow> 0 | Some v \<Rightarrow> v) \<le> 0 then x # y # ys
      else y # js_insert cmp x ys)"

definition js_sort :: "('a \<Rightarrow> 'a \<Rightarrow> int option) \<Rightarrow> 'a list \<Rightarrow> 'a list" where
  "js_sort cmp xs = foldr (js_insert cmp) xs []"

text \<open>\<^verbatim>\<open>trend\<close>, of the sessions of a subject name.\<close>

definition trend ::
  "(string \<Rightarrow> int option) \<Rightarrow> 'a StudySession_scheme list \<Rightarrow> string \<Rightarrow> int" where
  "trend newDate sessions subjectName =
     (let previousSessions =
            js_sort (byDateDesc newDate) (filter (\<lambda>s. subject s = subjectName) sessions)
      in if 2 \<le> length previousSessions
         then durationMinutes (previousSessions ! 0) - durationMinutes (previousSessions ! 1)
         else 0)"

section \<open>Analytics: the histogram of the last seven days\<close>

text \<open>
  \<^verbatim>\<open>last7Days\<close>: \<^verbatim>\<open>Array.from({ length: 7 }, (_, i) => ...)\<close> reversed. An entry
  \<^verbatim>\<open>{ date, minutes }\<close> is the pair of the label and the minutes.
\<close>

definition last7Days ::
  "(int \<Rightarrow> string \<Rightarrow> string) \<Rightarrow> int \<Rightarrow> 'a StudySession_scheme list \<Rightarrow> (string \<times> int) list" where
  "last7Days format now studyTime' =
     rev (map
       (\<lambda>i. let d = subDays now i;
                dateStr = format d ''yyyy-MM-dd'';
                minutes =
                  foldl (\<lambda>acc session. acc + durationMinutes session) 0
                    (filter (\<lambda>session. date session = dateStr) studyTime')
            in (format d ''MMM d'', minutes))
       [0..<7])"

text \<open>
  The bucket of a day in the words of the specification: the sum of the minutes of the
  sessions whose date string is the day's.
\<close>

definition day_minutes :: "'a StudySession_scheme list \<Rightarrow> string \<Rightarrow> int" where
  "day_minutes sessions dateStr =
     (\<Sum>s\<leftarrow>sessions. if date s = dateStr then durationMinutes s else 0)"

section \<open>Tasks: the completion toggle\<close>

definition handleTaskComplete :: "string \<Rightarrow> 'a Task_scheme list \<Rightarrow> 'a Task_scheme list" where
  "handleTaskComplete taskId tasks =
     map (\<lambda>task. if task_id task = taskId then task\<lparr>completed := \<not> completed task\<rparr> else task)
       tasks"


section \<open>Auxiliary facts\<close>

lemma foldl_add_sum_list:
  "foldl (\<lambda>acc x. acc + f x) a xs = a + sum_list (map f xs)" for a :: int
  by (induction xs arbitrary: a) simp_all

lemma sum_list_filter_if:
  "sum_list (map f (filter P xs)) = (\<Sum>x\<leftarrow>xs. if P x then f x else 0)" for f :: "'a \<Rightarrow> int"
  by (induction xs) simp_all

lemma upt_7: "[0..<7] = [0, 1, 2, 3, 4, 5, 6]"
  by code_simp

lemma msPerDay_pos: "0 < msPerDay"
  by (simp add: msPerDay_def)

lemma setHours0_le: "setHours0 tz t \<le> t"
proof -
  have "(t + tz) div msPerDay * msPerDay \<le> t + tz"
    using msPerDay_pos by (metis div_mult_mod_eq le_add_same_cancel1 pos_mod_sign)
  then show ?thesis by (simp add: setHours0_def)
qed

lemma setHours0_gt: "t < setHours0 tz t + msPerDay"
proof -
  have "t + tz = (t + tz) div msPerDay * msPerDay + (t + tz) mod msPerDay" by simp
  moreover have "(t + tz) mod msPerDay < msPerDay" using msPerDay_pos by simp
  ultimately have "t + tz < (t + tz) div msPerDay * msPerDay + msPerDay" by linarith
  then show ?thesis by (simp add: setHours0_def)
qed

lemma getDay_range: "0 \<le> getDay tz t \<and> getDay tz t \<le> 6"
  by (simp add: getDay_def)

lemma startOfWeek_days:
  "startOfWeek tz t + tz = ((t + tz) div msPerDay - getDay tz t) * msPerDay"
  by (simp add: startOfWeek_def setHours0_def algebra_simps)

lemma week_day_zero: "(q - (q + 4) mod 7 + 4) mod 7 = 0" for q :: int
  by presburger

lemma getDay_startOfWeek: "getDay tz (startOfWeek tz t) = 0"
proof -
  have "(startOfWeek tz t + tz) div msPerDay = (t + tz) div msPerDay - getDay tz t"
    using msPerDay_pos by (simp add: startOfWeek_days)
  then have "getDay tz (startOfWeek tz t)
      = ((t + tz) div msPerDay - ((t + tz) div msPerDay + 4) mod 7 + 4) mod 7"
    by (simp add: getDay_def)
  also have "\<dots> = 0" by (rule week_day_zero)
  finally show ?thesis .
qed

lemma setHours0_startOfWeek: "setHours0 tz (startOfWeek tz t) = startOfWeek tz t"
proof -
  have "(startOfWeek tz t + tz) div msPerDay * msPerDay = startOfWeek tz t + tz"
    using msPerDay_pos by (simp add: startOfWeek_days)
  then show ?thesis by (simp add: setHours0_def)
qed

lemma startOfWeek_le: "startOfWeek tz t \<le> t"
proof -
  have "0 \<le> getDay tz t * msPerDay"
    using getDay_range [of tz t] msPerDay_pos by simp
  then show ?thesis using setHours0_le [of tz t] by (simp add: startOfWeek_def)
qed

lemma le_endOfWeek: "t \<le> endOfWeek tz t"
proof -
  have "getDay tz t * msPerDay \<le> 6 * msPerDay"
    using getDay_range [of tz t] msPerDay_pos by simp
  then show ?thesis
    using setHours0_gt [of t tz] by (simp add: endOfWeek_def startOfWeek_def)
qed

section \<open>The streak update rule\<close>

text \<open>
  C2. For every streak record and every completed session (a duration above zero), the
  new streak record is the one of the update rule, for the day difference
  \<open>floor ((today's midnight - the last study date's midnight) / one day)\<close>: with a day
  difference of at most 1 the current streak grows by one and the best streak is the
  maximum of the old best and the new current streak; otherwise the current streak is 1
  and the best streak is unchanged. The last study date becomes today's midnight in
  both cases.
\<close>

theorem streak_update_rule:
  assumes "0 < minutes"
  shows "streak (handleStudySessionComplete newDate toISOString tz now uuid minutes st) =
     streak_rule (dayDiff newDate tz now (lastStudyDate (streak st)))
       (toISOString (setHours0 tz now)) (streak st)"
  using assms
  by (cases "newDate (lastStudyDate (streak st))")
     (simp_all add: handleStudySessionComplete_def streak_rule_def dayDiff_def
        timeDiff_le_def Let_def)

text \<open>
  A session of 25 minutes on 16 April 2025, the last one having been the evening
  before: the streak goes from 3 to 4.
\<close>

theorem streak_update_rule_witness:
  "0 < (25::int) \<and>
   streak (handleStudySessionComplete
       (map_of [(''2025-04-15T21:10:00.000Z'', 1744751400000)]) utc_toISOString 0
       1744829112345 ''7f9c'' 25
       \<lparr>isLoading = False, studyTime = [],
        streak = \<lparr>currentStreak = 3, bestStreak = 3,
                  lastStudyDate = ''2025-04-15T21:10:00.000Z''\<rparr>,
        isStudyActive = True, selectedSubject = ''Math''\<rparr>)
     = \<lparr>currentStreak = 4, bestStreak = 4, lastStudyDate = ''2025-04-16T00:00:00.000Z''\<rparr>"
proof -
  have pos: "0 < (25::int)" by simp
  have "streak_rule
          (dayDiff (map_of [(''2025-04-15T21:10:00.000Z'', 1744751400000)]) 0 1744829112345
             ''2025-04-15T21:10:00.000Z'')
          (utc_toISOString (setHours0 0 1744829112345))
          \<lparr>currentStreak = 3, bestStreak = 3, lastStudyDate = ''2025-04-15T21:10:00.000Z''\<rparr>
        = \<lparr>currentStreak = 4, bestStreak = 4, lastStudyDate = ''2025-04-16T00:00:00.000Z''\<rparr>"
    by code_simp
  with streak_update_rule [OF pos] pos show ?thesis by simp
qed

text \<open>A completed session is appended to the sessions, under the selected subject.\<close>

lemma session_appended:
  assumes "0 < minutes"
  shows "studyTime (handleStudySessionComplete newDate toISOString tz now uuid minutes st) =
     studyTime st @
       [\<lparr>date = toISOString now, durationMinutes = minutes,
         subject = (if selectedSubject st = [] then ''General'' else selectedSubject st),
         session_id = uuid\<rparr>]"
  using assms by (simp add: handleStudySessionComplete_def Let_def)

text \<open>
  The update keeps the current streak at or below the best streak whenever the best
  streak is at least 1 beforehand, or the day difference is at most 1.
\<close>

lemma streak_bounded_by_best:
  assumes "0 < minutes"
    and "1 \<le> bestStreak (streak st)
         \<or> timeDiff_le (dayDiff newDate tz now (lastStudyDate (streak st))) 1"
  shows "currentStreak (streak (handleStudySessionComplete newDate toISOString tz now uuid minutes st))
    \<le> bestStreak (streak (handleStudySessionComplete newDate toISOString tz now uuid minutes st))"
  using assms
  by (cases "newDate (lastStudyDate (streak st))")
     (auto simp: handleStudySessionComplete_def dayDiff_def timeDiff_le_def Let_def)

text \<open>
  C1. The current streak is at most the best streak in every state that the update rule
  reaches. The reset branch breaks this: for the stored streak
  \<open>{currentStreak: 0, bestStreak: 0}\<close> whose last study date is two days old, a
  completed session gives a current streak of 1 and leaves the best streak at 0. The
  other branch takes the maximum.
\<close>

theorem streak_reset_exceeds_best:
  "streak (handleStudySessionComplete
       (map_of [(''2025-04-14T09:00:00.000Z'', 1744621200000)]) utc_toISOString 0
       1744829112345 ''7f9c'' 25
       \<lparr>isLoading = False, studyTime = [],
        streak = \<lparr>currentStreak = 0, bestStreak = 0,
                  lastStudyDate = ''2025-04-14T09:00:00.000Z''\<rparr>,
        isStudyActive = True, selectedSubject = []\<rparr>)
     = \<lparr>currentStreak = 1, bestStreak = 0, lastStudyDate = ''2025-04-16T00:00:00.000Z''\<rparr>"
  by code_simp

text \<open>
  C8. A completion with a duration of zero or less is rejected: the state of the
  dashboard, with its sessions and its streak, is returned as it was, and the
  persisting effects write nothing to local storage.
\<close>

theorem nonpositive_duration_rejected:
  assumes "minutes \<le> 0"
  shows "handleStudySessionComplete newDate toISOString tz now uuid minutes st = st
    \<and> Dashboard_effects stringifySessions stringifyStreak st
          (handleStudySessionComplete newDate toISOString tz now uuid minutes st) localStorage
        = localStorage"
  using assms by (simp add: handleStudySessionComplete_def Dashboard_effects_def)

theorem nonpositive_duration_rejected_witness:
  "(- 5::int) \<le> 0
   \<and> handleStudySessionComplete
       (map_of [(''2025-04-15T21:10:00.000Z'', 1744751400000)]) utc_toISOString 0
       1744829112345 ''7f9c'' (- 5)
       \<lparr>isLoading = False, studyTime = [],
        streak = \<lparr>currentStreak = 3, bestStreak = 3,
                  lastStudyDate = ''2025-04-15T21:10:00.000Z''\<rparr>,
        isStudyActive = True, selectedSubject = ''Math''\<rparr>
     = \<lparr>isLoading = False, studyTime = [],
        streak = \<lparr>currentStreak = 3, bestStreak = 3,
                  lastStudyDate = ''2025-04-15T21:10:00.000Z''\<rparr>,
        isStudyActive = True, selectedSubject = ''Math''\<rparr>
   \<and> Dashboard_effects (\<lambda>sessions. concat (map session_id sessions)) lastStudyDate
       \<lparr>isLoading = False, studyTime = [],
        streak = \<lparr>currentStreak = 3, bestStreak = 3,
                  lastStudyDate = ''2025-04-15T21:10:00.000Z''\<rparr>,
        isStudyActive = True, selectedSubject = ''Math''\<rparr>
       (handleStudySessionComplete
         (map_of [(''2025-04-15T21:10:00.000Z'', 1744751400000)]) utc_toISOString 0
         1744829112345 ''7f9c'' (- 5)
         \<lparr>isLoading = False, studyTime = [],
          streak = \<lparr>currentStreak = 3, bestStreak = 3,
                    lastStudyDate = ''2025-04-15T21:10:00.000Z''\<rparr>,
          isStudyActive = True, selectedSubject = ''Math''\<rparr>)
       (map_of [(''studyTime'', ''[]'')])
     = map_of [(''studyTime'', ''[]'')]"
proof -
  let ?st = "\<lparr>isLoading = False, studyTime = [],
        streak = \<lparr>currentStreak = 3, bestStreak = 3,
                  lastStudyDate = ''2025-04-15T21:10:00.000Z''\<rparr>,
        isStudyActive = True, selectedSubject = ''Math''\<rparr>"
  have neg: "(- 5::int) \<le> 0" by simp
  show ?thesis
    using neg
      nonpositive_duration_rejected
        [OF neg, where st = ?st and localStorage = "map_of [(''studyTime'', ''[]'')]"
          and newDate = "map_of [(''2025-04-15T21:10:00.000Z'', 1744751400000)]"
          and toISOString = utc_toISOString and tz = 0 and now = 1744829112345
          and uuid = "''7f9c''" and stringifyStreak = lastStudyDate
          and stringifySessions = "\<lambda>sessions. concat (map session_id sessions)"]
    by auto
qed

section \<open>Weekly progress and goal progress\<close>

lemma getWeeklyProgress_weekly_minutes:
  "getWeeklyProgress newDate tz now sessions n
     = real_of_int (weekly_minutes newDate tz now sessions n) / 60"
proof -
  have "(date_ge d (startOfWeek tz now) \<and> date_le d (endOfWeek tz now)) = in_week tz now d"
    for d
    by (simp add: date_ge_def date_le_def in_week_def split: option.splits)
  then show ?thesis
    by (simp add: getWeeklyProgress_def weekly_minutes_def Let_def foldl_add_sum_list
        sum_list_filter_if)
qed

text \<open>
  C3. For every list of sessions and every subject name, the weekly progress is the sum
  of the minutes of the sessions whose subject is that name and whose date lies between
  the start and the end of the current week, both included, divided by 60. The week
  starts on a Sunday at local midnight, lasts seven days and contains \<open>now\<close>.
\<close>

theorem weekly_progress_sum:
  "getWeeklyProgress newDate tz now sessions n
     = real_of_int (weekly_minutes newDate tz now sessions n) / 60
   \<and> getDay tz (startOfWeek tz now) = 0
   \<and> setHours0 tz (startOfWeek tz now) = startOfWeek tz now
   \<and> endOfWeek tz now = startOfWeek tz now + 7 * msPerDay - 1
   \<and> startOfWeek tz now \<le> now \<and> now \<le> endOfWeek tz now"
  using getWeeklyProgress_weekly_minutes getDay_startOfWeek setHours0_startOfWeek
    startOfWeek_le le_endOfWeek
  by (simp add: endOfWeek_def)

text \<open>
  C4, as the code has it. The goal progress is \<open>(P / G) * 100\<close> whenever the weekly goal
  \<open>G\<close> is not zero. The division is not guarded: for a weekly goal of zero the value is
  NaN when the progress \<open>P\<close> is zero, and an infinity with the sign of \<open>P\<close> otherwise. The
  subject cards compute their percentage from the weekly progress in the same way.
\<close>

theorem goal_progress_unguarded:
  "goalProgress P G =
     (if G \<noteq> 0 then Num (P / G * 100)
      else if P = 0 then NaN else if 0 < P then PosInfinity else NegInfinity)
   \<and> progress newDate tz now sessions subj =
       goalProgress (getWeeklyProgress newDate tz now sessions (name subj))
         (goalHoursPerWeek subj)"
  by (simp add: goalProgress_def progress_def)

text \<open>
  C4 as stated gives 0 for a weekly goal of zero. One hour of progress against a goal of
  zero hours is infinite.
\<close>

theorem goal_progress_zero_goal_counterexample:
  "goalProgress 1 0 = PosInfinity \<and> goalProgress 1 0 \<noteq> Num 0"
  by (simp add: goalProgress_def)

text \<open>
  For the current week \<^verbatim>\<open>SubjectStats\<close> totals the hours that \<^verbatim>\<open>getWeeklyProgress\<close>
  does, and its goal progress is the same expression over them.
\<close>

lemma totalHours_Week:
  "totalHours newDate tz now Week sessions n = getWeeklyProgress newDate tz now sessions n"
proof -
  have "filter (\<lambda>s. date_ge (newDate (date s)) (startOfWeek tz now)
                  \<and> date_le (newDate (date s)) (endOfWeek tz now))
          (filter (\<lambda>s. subject s = n) sessions)
        = filter (\<lambda>s. subject s = n \<and> date_ge (newDate (date s)) (startOfWeek tz now)
                  \<and> date_le (newDate (date s)) (endOfWeek tz now)) sessions"
    by (induction sessions) simp_all
  then show ?thesis
    by (simp add: totalHours_def getFilteredSessions_def getWeeklyProgress_def Let_def)
qed

text \<open>
  The constants of \<^verbatim>\<open>SubjectStats\<close>, over all time: 225 minutes are 3.75 hours and
  37.5 percent of the goal of 10 hours, and the trend is \<open>60 - 120\<close>.
\<close>

lemma stats_constants:
  "totalHours newDate tz now All stats_sessions (name stats_subject) = 3.75
   \<and> goalProgress (totalHours newDate tz now All stats_sessions (name stats_subject))
        (goalHoursPerWeek stats_subject) = Num 37.5"
  by (simp add: totalHours_def getFilteredSessions_def stats_sessions_def stats_subject_def
      goalProgress_def)

section \<open>Trend of a subject\<close>

lemma length_js_insert: "length (js_insert cmp x ys) = Suc (length ys)"
  by (induction ys) simp_all

lemma length_js_sort: "length (js_sort cmp xs) = length xs"
  by (induction xs) (simp_all add: js_sort_def length_js_insert)

lemma trend_short:
  assumes "length (filter (\<lambda>s. subject s = n) sessions) < 2"
  shows "trend newDate sessions n = 0"
  using assms by (simp add: trend_def length_js_sort)

lemma js_sort_pair:
  assumes "newDate (date a) = Some t1" and "newDate (date b) = Some t2" and "t1 < t2"
  shows "js_sort (byDateDesc newDate) [a, b] = [b, a]"
    and "js_sort (byDateDesc newDate) [b, a] = [b, a]"
  using assms by (simp_all add: js_sort_def byDateDesc_def)

text \<open>
  With two sessions of the subject, the trend is the minutes of the later one minus the
  minutes of the earlier one, in whichever order the list holds them.
\<close>

lemma trend_pair:
  assumes "filter (\<lambda>s. subject s = n) sessions = [a, b]
           \<or> filter (\<lambda>s. subject s = n) sessions = [b, a]"
    and "newDate (date a) = Some t1" and "newDate (date b) = Some t2" and "t1 < t2"
  shows "trend newDate sessions n = durationMinutes b - durationMinutes a"
  using assms(1) js_sort_pair [OF assms(2-4)] by (auto simp: trend_def)

text \<open>
  C5, as the code has it. For a subject with fewer than two sessions the trend is 0. For
  a subject with exactly two sessions, of 60 minutes at \<open>t1\<close> and of 90 minutes at a
  later \<open>t2\<close>, the sessions sorted by descending date start with the later one, and the
  trend is the latest minus the previous: \<open>90 - 60 = 30\<close>.
\<close>

theorem trend_latest_minus_previous:
  "(length (filter (\<lambda>s. subject s = n) sessions) < 2 \<longrightarrow> trend newDate sessions n = 0)
   \<and> ((filter (\<lambda>s. subject s = n) sessions = [a, b]
         \<or> filter (\<lambda>s. subject s = n) sessions = [b, a])
        \<and> newDate (date a) = Some t1 \<and> newDate (date b) = Some t2 \<and> t1 < t2
        \<and> durationMinutes a = 60 \<and> durationMinutes b = 90
       \<longrightarrow> trend newDate sessions n = 30)"
  using trend_short [of n sessions newDate] trend_pair [of n sessions a b newDate t1 t2]
  by simp

text \<open>
  One session of the subject gives 0; two sessions of the subject, the later one first
  in the list and a session of another subject between them, give 30.
\<close>

theorem trend_latest_minus_previous_witness:
  "length (filter (\<lambda>s. subject s = ''Math'')
      [\<lparr>date = ''2025-04-12'', durationMinutes = 60, subject = ''Physics''\<rparr>,
       \<lparr>date = ''2025-04-13'', durationMinutes = 90, subject = ''Math''\<rparr>]) < 2
   \<and> trend (map_of [(''2025-04-12'', 1744416000000), (''2025-04-13'', 1744502400000)])
      [\<lparr>date = ''2025-04-12'', durationMinutes = 60, subject = ''Physics''\<rparr>,
       \<lparr>date = ''2025-04-13'', durationMinutes = 90, subject = ''Math''\<rparr>] ''Math'' = 0
   \<and> filter (\<lambda>s. subject s = ''Math'')
      [\<lparr>date = ''2025-04-13'', durationMinutes = 90, subject = ''Math''\<rparr>,
       \<lparr>date = ''2025-04-10'', durationMinutes = 45, subject = ''Physics''\<rparr>,
       \<lparr>date = ''2025-04-12'', durationMinutes = 60, subject = ''Math''\<rparr>]
     = [\<lparr>date = ''2025-04-13'', durationMinutes = 90, subject = ''Math''\<rparr>,
        \<lparr>date = ''2025-04-12'', durationMinutes = 60, subject = ''Math''\<rparr>]
   \<and> (1744416000000::int) < 1744502400000
   \<and> trend (map_of [(''2025-04-12'', 1744416000000), (''2025-04-13'', 1744502400000)])
      [\<lparr>date = ''2025-04-13'', durationMinutes = 90, subject = ''Math''\<rparr>,
       \<lparr>date = ''2025-04-10'', durationMinutes = 45, subject = ''Physics''\<rparr>,
       \<lparr>date = ''2025-04-12'', durationMinutes = 60, subject = ''Math''\<rparr>] ''Math'' = 30"
  using
    trend_latest_minus_previous
      [of "''Math''"
        "[\<lparr>date = ''2025-04-12'', durationMinutes = 60, subject = ''Physics''\<rparr>,
          \<lparr>date = ''2025-04-13'', durationMinutes = 90, subject = ''Math''\<rparr>]"
        "map_of [(''2025-04-12'', 1744416000000), (''2025-04-13'', 1744502400000)]"]
    trend_latest_minus_previous
      [of "''Math''"
        "[\<lparr>date = ''2025-04-13'', durationMinutes = 90, subject = ''Math''\<rparr>,
          \<lparr>date = ''2025-04-10'', durationMinutes = 45, subject = ''Physics''\<rparr>,
          \<lparr>date = ''2025-04-12'', durationMinutes = 60, subject = ''Math''\<rparr>]"
        "map_of [(''2025-04-12'', 1744416000000), (''2025-04-13'', 1744502400000)]"
        "\<lparr>date = ''2025-04-12'', durationMinutes = 60, subject = ''Math''\<rparr>"
        "\<lparr>date = ''2025-04-13'', durationMinutes = 90, subject = ''Math''\<rparr>"
        1744416000000 1744502400000]
  by simp

lemma stats_constants_trend:
  "trend (map_of [(''2025-04-12'', 1744416000000), (''2025-04-13'', 1744502400000),
                  (''2025-04-06'', 1743897600000)])
     stats_sessions (name stats_subject) = - 60"
  by (simp add: trend_def js_sort_def byDateDesc_def stats_sessions_def stats_subject_def)

text \<open>
  C5 as stated gives \<open>60 - 90 = - 30\<close>. For the sessions of 60 minutes on 12 April and
  of 90 minutes on 13 April the trend is 30.
\<close>

theorem trend_counterexample:
  "trend (map_of [(''2025-04-12'', 1744416000000), (''2025-04-13'', 1744502400000)])
     [\<lparr>date = ''2025-04-12'', durationMinutes = 60, subject = ''Math''\<rparr>,
      \<lparr>date = ''2025-04-13'', durationMinutes = 90, subject = ''Math''\<rparr>] ''Math'' = 30
   \<and> trend (map_of [(''2025-04-12'', 1744416000000), (''2025-04-13'', 1744502400000)])
     [\<lparr>date = ''2025-04-12'', durationMinutes = 60, subject = ''Math''\<rparr>,
      \<lparr>date = ''2025-04-13'', durationMinutes = 90, subject = ''Math''\<rparr>] ''Math'' \<noteq> - 30"
  by (simp add: trend_def js_sort_def byDateDesc_def)

section \<open>The histogram of the last seven days\<close>

lemma last7Days_buckets:
  "last7Days format now sessions =
     map (\<lambda>k. (format (subDays now k) ''MMM d'',
               day_minutes sessions (format (subDays now k) ''yyyy-MM-dd'')))
       [6, 5, 4, 3, 2, 1, 0]"
  by (simp add: last7Days_def upt_7 Let_def day_minutes_def foldl_add_sum_list
      sum_list_filter_if)

lemma day_minutes_two:
  assumes "date a = D" and "date b = D" and "durationMinutes a = 30" and "durationMinutes b = 20"
  shows "day_minutes [a, b] E = (if D = E then 50 else 0)"
  using assms by (simp add: day_minutes_def)

lemma last7Days_two_sessions:
  assumes k: "k < 7"
    and d: "distinct (map (\<lambda>j. format (subDays now j) ''yyyy-MM-dd'') [0..<7])"
    and s: "sessions = [a, b]" "date a = format (subDays now k) ''yyyy-MM-dd''" "date b = date a"
      "durationMinutes a = 30" "durationMinutes b = 20"
  shows "map snd (last7Days format now sessions) = (replicate 7 0)[6 - k := 50]"
proof -
  define D where "D j = format (subDays now j) ''yyyy-MM-dd''" for j
  have "inj_on D {0..<7}"
    using d unfolding D_def by (simp add: distinct_map)
  then have eq: "(D k = D j) = (k = j)" if "j < 7" for j
    using that k by (auto simp: inj_on_def)
  have m: "day_minutes sessions (D j) = (if k = j then 50 else 0)" if "j < 7" for j
    using day_minutes_two [of a "D k" b "D j"] s eq [OF that] by (simp add: D_def)
  have "map snd (last7Days format now sessions)
      = map (\<lambda>j. day_minutes sessions (D j)) [6, 5, 4, 3, 2, 1, 0]"
    by (simp add: last7Days_buckets D_def)
  also have "\<dots> = map (\<lambda>j. if k = j then 50 else 0) [6, 5, 4, 3, 2, 1, 0]"
    by (simp add: m)
  finally have r: "map snd (last7Days format now sessions)
      = map (\<lambda>j. if k = j then 50 else 0) [6, 5, 4, 3, 2, 1, 0]" .
  have z: "replicate 7 (0::int) = [0, 0, 0, 0, 0, 0, 0]"
    by (simp add: numeral_eq_Suc)
  consider "k = 0" | "k = 1" | "k = 2" | "k = 3" | "k = 4" | "k = 5" | "k = 6"
    using k by linarith
  then show ?thesis
    by cases (simp_all add: r z)
qed

text \<open>
  C7. For every list of sessions the histogram has exactly 7 entries, for the days from
  six days ago to today in this order; the entry of a day holds the day's label and the
  sum of the minutes of the sessions whose date string is the day's, which is 0 for a
  day without sessions. In particular, when the seven days have seven different date
  strings and the sessions are two, of 30 and of 20 minutes, both on the day \<open>k\<close> days
  ago, that day's bucket is 50 and every other bucket is 0.
\<close>

theorem last7Days_histogram:
  "length (last7Days format now sessions) = 7
   \<and> last7Days format now sessions =
       map (\<lambda>k. (format (subDays now k) ''MMM d'',
                 day_minutes sessions (format (subDays now k) ''yyyy-MM-dd'')))
         [6, 5, 4, 3, 2, 1, 0]
   \<and> (k < 7 \<and> distinct (map (\<lambda>j. format (subDays now j) ''yyyy-MM-dd'') [0..<7])
        \<and> sessions = [a, b] \<and> date a = format (subDays now k) ''yyyy-MM-dd''
        \<and> date b = date a \<and> durationMinutes a = 30 \<and> durationMinutes b = 20
       \<longrightarrow> map snd (last7Days format now sessions) = (replicate 7 0)[6 - k := 50])"
  using last7Days_two_sessions [of k format now sessions a b]
  by (simp add: last7Days_buckets)

text \<open>
  On 16 April 2025, two sessions on 12 April, four days earlier: the third of the seven
  buckets is 50.
\<close>

theorem last7Days_histogram_witness:
  "(4::nat) < 7
   \<and> distinct (map (\<lambda>j. zone_format 0 (subDays 1744829112345 j) ''yyyy-MM-dd'') [0..<7])
   \<and> ''2025-04-12'' = zone_format 0 (subDays 1744829112345 4) ''yyyy-MM-dd''
   \<and> map snd (last7Days (zone_format 0) 1744829112345
        [\<lparr>date = ''2025-04-12'', durationMinutes = 30, subject = ''Math''\<rparr>,
         \<lparr>date = ''2025-04-12'', durationMinutes = 20, subject = ''Physics''\<rparr>])
       = [0, 0, 50, 0, 0, 0, 0]
   \<and> map fst (last7Days (zone_format 0) 1744829112345
        [\<lparr>date = ''2025-04-12'', durationMinutes = 30, subject = ''Math''\<rparr>,
         \<lparr>date = ''2025-04-12'', durationMinutes = 20, subject = ''Physics''\<rparr>])
       = [''Apr 10'', ''Apr 11'', ''Apr 12'', ''Apr 13'', ''Apr 14'', ''Apr 15'', ''Apr 16'']"
proof -
  let ?a = "\<lparr>date = ''2025-04-12'', durationMinutes = 30, subject = ''Math''\<rparr>"
  let ?b = "\<lparr>date = ''2025-04-12'', durationMinutes = 20, subject = ''Physics''\<rparr>"
  have d: "distinct (map (\<lambda>j. zone_format 0 (subDays 1744829112345 j) ''yyyy-MM-dd'') [0..<7])"
    by code_simp
  have e: "''2025-04-12'' = zone_format 0 (subDays 1744829112345 4) ''yyyy-MM-dd''"
    by code_simp
  have l: "map fst (last7Days (zone_format 0) 1744829112345 [?a, ?b])
      = [''Apr 10'', ''Apr 11'', ''Apr 12'', ''Apr 13'', ''Apr 14'', ''Apr 15'', ''Apr 16'']"
    by code_simp
  have r: "(replicate 7 0)[6 - 4 := 50] = [0, 0, 50, 0, 0, 0, 0::int]"
    by code_simp
  have k: "(4::nat) < 7" by simp
  have a: "date ?a = zone_format 0 (subDays 1744829112345 4) ''yyyy-MM-dd''"
    using e by simp
  have b: "date ?b = date ?a" "durationMinutes ?a = 30" "durationMinutes ?b = 20"
    by simp_all
  have "map snd (last7Days (zone_format 0) 1744829112345 [?a, ?b]) = (replicate 7 0)[6 - 4 := 50]"
    using last7Days_histogram [of "zone_format 0" 1744829112345 "[?a, ?b]" 4 ?a ?b] k d a b
    by blast
  then have "map snd (last7Days (zone_format 0) 1744829112345 [?a, ?b]) = [0, 0, 50, 0, 0, 0, 0]"
    by (simp only: r)
  with k d e l show ?thesis by blast
qed

section \<open>Deleting a subject\<close>

text \<open>
  C9. Deleting a subject removes the subjects with that id and no other: the remaining
  subjects are the others, in their order. The study sessions of the page are unchanged,
  so every session keeps the value of its subject field and the weekly progress of every
  subject name is what it was; the effect that persists the subjects leaves the stored
  sessions untouched.
\<close>

theorem delete_subject_frame:
  "studySessions (handleDeleteSubject i st) = studySessions st
   \<and> map subject (studySessions (handleDeleteSubject i st)) = map subject (studySessions st)
   \<and> filter (\<lambda>s. subject_id s = i) (subjects (handleDeleteSubject i st)) = []
   \<and> filter (\<lambda>s. subject_id s \<noteq> i) (subjects (handleDeleteSubject i st))
       = filter (\<lambda>s. subject_id s \<noteq> i) (subjects st)
   \<and> length (subjects (handleDeleteSubject i st))
       = length (subjects st) - length (filter (\<lambda>s. subject_id s = i) (subjects st))
   \<and> Subjects_effect JSON_stringify (handleDeleteSubject i st) localStorage ''studyTime''
       = localStorage ''studyTime''
   \<and> getWeeklyProgress newDate tz now (studySessions (handleDeleteSubject i st)) n
       = getWeeklyProgress newDate tz now (studySessions st) n"
proof -
  have "length (filter (\<lambda>s. subject_id s \<noteq> i) xs)
      = length xs - length (filter (\<lambda>s. subject_id s = i) xs)" for xs :: "Subject list"
    by (induction xs) (simp_all add: Suc_diff_le)
  then show ?thesis
    by (simp add: handleDeleteSubject_def Subjects_effect_def)
qed

section \<open>The completion toggle\<close>

lemma toggle_length: "length (handleTaskComplete i ts) = length ts"
  by (simp add: handleTaskComplete_def)

lemma toggle_nth:
  assumes "k < length ts"
  shows "handleTaskComplete i ts ! k =
    (if task_id (ts ! k) = i then (ts ! k)\<lparr>completed := \<not> completed (ts ! k)\<rparr> else ts ! k)"
  using assms by (simp add: handleTaskComplete_def)

lemma toggle_other_fields:
  "map (\<lambda>t. t\<lparr>completed := c\<rparr>) (handleTaskComplete i ts) = map (\<lambda>t. t\<lparr>completed := c\<rparr>) ts"
  by (induction ts) (simp_all add: handleTaskComplete_def)

lemma toggle_other_tasks:
  "filter (\<lambda>t. task_id t \<noteq> i) (handleTaskComplete i ts) = filter (\<lambda>t. task_id t \<noteq> i) ts"
  by (induction ts) (simp_all add: handleTaskComplete_def)

lemma toggle_twice: "handleTaskComplete i (handleTaskComplete i ts) = ts"
  by (induction ts) (simp_all add: handleTaskComplete_def)

text \<open>
  C10. The toggle keeps the length and the order of the task list; at every position,
  a task with the given id has its completed flag negated and a task with another id
  is unchanged; apart from the completed flag the list is what it was; and toggling
  twice gives back the original list.
\<close>

theorem toggle_task_completion:
  "length (handleTaskComplete i ts) = length ts
   \<and> (\<forall>k. k < length ts \<longrightarrow>
         handleTaskComplete i ts ! k =
           (if task_id (ts ! k) = i then (ts ! k)\<lparr>completed := \<not> completed (ts ! k)\<rparr>
            else ts ! k))
   \<and> map (\<lambda>t. t\<lparr>completed := c\<rparr>) (handleTaskComplete i ts) = map (\<lambda>t. t\<lparr>completed := c\<rparr>) ts
   \<and> filter (\<lambda>t. task_id t \<noteq> i) (handleTaskComplete i ts) = filter (\<lambda>t. task_id t \<noteq> i) ts
   \<and> handleTaskComplete i (handleTaskComplete i ts) = ts"
  by (simp add: toggle_length toggle_nth toggle_other_fields toggle_other_tasks toggle_twice)

theorem toggle_task_completion_witness:
  "(1::nat) < length
      [\<lparr>task_id = ''t1'', title = ''Read'', task_description = ''ch. 3'',
        dueDate = ''2025-04-18'', completed = True\<rparr>,
       \<lparr>task_id = ''t2'', title = ''Essay'', task_description = ''draft'',
        dueDate = ''2025-04-20'', completed = False\<rparr>]
   \<and> handleTaskComplete ''t2''
      [\<lparr>task_id = ''t1'', title = ''Read'', task_description = ''ch. 3'',
        dueDate = ''2025-04-18'', completed = True\<rparr>,
       \<lparr>task_id = ''t2'', title = ''Essay'', task_description = ''draft'',
        dueDate = ''2025-04-20'', completed = False\<rparr>] ! 1
     = \<lparr>task_id = ''t2'', title = ''Essay'', task_description = ''draft'',
        dueDate = ''2025-04-20'', completed = True\<rparr>
   \<and> handleTaskComplete ''t2''
      [\<lparr>task_id = ''t1'', title = ''Read'', task_description = ''ch. 3'',
        dueDate = ''2025-04-18'', completed = True\<rparr>,
       \<lparr>task_id = ''t2'', title = ''Essay'', task_description = ''draft'',
        dueDate = ''2025-04-20'', completed = False\<rparr>] ! 0
     = \<lparr>task_id = ''t1'', title = ''Read'', task_description = ''ch. 3'',
        dueDate = ''2025-04-18'', completed = True\<rparr>"
  using toggle_task_completion
    [of "''t2''"
      "[\<lparr>task_id = ''t1'', title = ''Read'', task_description = ''ch. 3'',
         dueDate = ''2025-04-18'', completed = True\<rparr>,
        \<lparr>task_id = ''t2'', title = ''Essay'', task_description = ''draft'',
         dueDate = ''2025-04-20'', completed = False\<rparr>]" True]
  by simp

section \<open>Reads of persisted collections\<close>

text \<open>
  The read of the profile page never throws: it returns the default when the key is
  absent, when the stored string is empty and when the stored string does not parse,
  and the parsed value otherwise.
\<close>

lemma storage_get_total:
  "storage_get JSON_parse localStorage key defaultValue =
     (case localStorage key of
        None \<Rightarrow> Inr defaultValue
      | Some item \<Rightarrow>
          (case JSON_parse item of
             None \<Rightarrow> Inr defaultValue
           | Some v \<Rightarrow> if item = [] then Inr defaultValue else Inr v))"
  by (simp add: storage_get_def parse_or_throw_def split: option.splits)

text \<open>
  The initial read of the task page throws exactly for a stored string that is not
  empty and does not parse.
\<close>

lemma Tasks_tasks_init_throws:
  "(Tasks_tasks_init JSON_parse localStorage = Inl SyntaxError) =
     (\<exists>saved. localStorage ''tasks'' = Some saved \<and> saved \<noteq> [] \<and> JSON_parse saved = None)"
  by (auto simp: Tasks_tasks_init_def parse_or_throw_def split: option.splits)

text \<open>
  C6. Every read of a persisted collection returns the caller's default when the stored
  value is absent or does not parse, and never throws. The initial reads of the task
  page and of the subject page break this: with the string \<^verbatim>\<open>[{\<close> stored under their
  key, which no JSON parser accepts, each of them throws the \<^verbatim>\<open>SyntaxError\<close>, where
  the read of the profile page returns the default.
\<close>

theorem unguarded_reads_throw:
  "Tasks_tasks_init (\<lambda>s. if s = ''[]'' then Some ([] :: Task list) else None)
      (map_of [(''tasks'', ''[{'')]) = Inl SyntaxError
   \<and> Subjects_subjects_init (\<lambda>s. if s = ''[]'' then Some ([] :: Subject list) else None)
      (map_of [(''subjects'', ''[{'')]) = Inl SyntaxError
   \<and> Subjects_studySessions_init
      (\<lambda>s. if s = ''[]'' then Some ([] :: StoredSession list) else None)
      (map_of [(''studyTime'', ''[{'')]) = Inl SyntaxError
   \<and> storage_get (\<lambda>s. if s = ''[]'' then Some ([] :: Task list) else None)
      (map_of [(''tasks'', ''[{'')]) ''tasks'' [] = Inr []"
  by (simp add: Tasks_tasks_init_def Subjects_subjects_init_def Subjects_studySessions_init_def
      storage_get_def parse_or_throw_def)

end
